theory Spec2Isabelle
  imports Main
begin

section \<open>Python values and library behaviour the tools rely on\<close>

text \<open>
  The tools under \<^verbatim>\<open>src/tools\<close> are eleven independent Python scripts. Each one builds a
  URL, calls \<^verbatim>\<open>urllib.request.urlopen\<close> once, and reports the decoded JSON answer.
  A Python \<^verbatim>\<open>str\<close> is modelled as a HOL \<open>string\<close>, a Python \<^verbatim>\<open>dict\<close> as an association
  list in insertion order, and the value produced by \<^verbatim>\<open>json.loads\<close> as the datatype
  \<open>json\<close>. Python floats are kept abstract: nothing in the tools computes with them.
\<close>

typedecl pyfloat

datatype json =
    JNull
  | JBool bool
  | JInt int
  | JFloat pyfloat
  | JStr string
  | JArr "json list"
  | JObj "(string \<times> json) list"

text \<open>
  The exceptions that can travel through the scripts. The message is kept where the
  source or the library call supplies one that the scripts print.
\<close>

datatype pyexn =
    ValueError string
  | JSONDecodeError string
  | UnicodeDecodeError string
  | AttributeError
  | TypeError
  | KeyError

text \<open>
  The standard-library functions the scripts call are parameters of the model:
  \<^item> \<open>utf8_decode\<close> is \<^verbatim>\<open>bytes.decode('utf-8')\<close>; \<open>Inl m\<close> is a \<^verbatim>\<open>UnicodeDecodeError\<close> whose
    \<^verbatim>\<open>str\<close> is \<open>m\<close>;
  \<^item> \<open>json_loads\<close> is \<^verbatim>\<open>json.loads\<close>; \<open>Inl m\<close> is a \<^verbatim>\<open>json.JSONDecodeError\<close> whose \<^verbatim>\<open>str\<close>
    is \<open>m\<close>;
  \<^item> \<open>json_dumps_indent2\<close> is \<^verbatim>\<open>json.dumps(v, indent=2)\<close>;
  \<^item> \<open>py_repr\<close> is \<^verbatim>\<open>str(v)\<close> for a value that is not itself a string;
  \<^item> \<open>request_ctor\<close> is the check made by the constructor \<^verbatim>\<open>urllib.request.Request(url)\<close>:
    \<open>Some m\<close> is the \<^verbatim>\<open>ValueError\<close> it raises for a URL it rejects.
\<close>

record pylib =
  utf8_decode :: "string \<Rightarrow> string + string"
  json_loads :: "string \<Rightarrow> string + json"
  json_dumps_indent2 :: "json \<Rightarrow> string"
  py_repr :: "json \<Rightarrow> string"
  request_ctor :: "string \<Rightarrow> string option"

text \<open>\<^verbatim>\<open>d.get(k, default)\<close> on a dict.\<close>

definition dict_get :: "(string \<times> json) list \<Rightarrow> string \<Rightarrow> json \<Rightarrow> json" where
  "dict_get kvs k d = (case map_of kvs k of None \<Rightarrow> d | Some v \<Rightarrow> v)"

text \<open>\<^verbatim>\<open>p in s\<close> for two strings: \<open>p\<close> occurs in \<open>s\<close> as a contiguous block.\<close>

fun str_contains :: "string \<Rightarrow> string \<Rightarrow> bool" where
  "str_contains p [] = (p = [])"
| "str_contains p (c # cs) = (take (length p) (c # cs) = p \<or> str_contains p cs)"

text \<open>
  \<^verbatim>\<open>k in v\<close> for a string \<open>k\<close> and a decoded JSON value \<open>v\<close>: key membership on a dict,
  element membership on a list, substring test on a string, and a \<^verbatim>\<open>TypeError\<close>
  (\<open>None\<close>) on \<^verbatim>\<open>None\<close>, booleans and numbers.
\<close>

definition py_in :: "string \<Rightarrow> json \<Rightarrow> bool option" where
  "py_in k v =
     (case v of
        JObj kvs \<Rightarrow> Some (k \<in> set (map fst kvs))
      | JArr xs \<Rightarrow> Some (JStr k \<in> set xs)
      | JStr s \<Rightarrow> Some (str_contains k s)
      | _ \<Rightarrow> None)"

text \<open>\<^verbatim>\<open>v[k]\<close> for a string key: only a dict can be indexed by a string.\<close>

definition py_getitem :: "json \<Rightarrow> string \<Rightarrow> pyexn + json" where
  "py_getitem v k =
     (case v of
        JObj kvs \<Rightarrow> (case map_of kvs k of None \<Rightarrow> Inl KeyError | Some x \<Rightarrow> Inr x)
      | _ \<Rightarrow> Inl TypeError)"

text \<open>The text an f-string inserts for a value: a string as it is, anything else by \<^verbatim>\<open>str\<close>.\<close>

definition py_format :: "pylib \<Rightarrow> json \<Rightarrow> string" where
  "py_format lib v = (case v of JStr s \<Rightarrow> s | _ \<Rightarrow> py_repr lib v)"

text \<open>Truthiness of an optional string argument: \<^verbatim>\<open>None\<close> and \<^verbatim>\<open>''\<close> are false.\<close>

definition truthy :: "string option \<Rightarrow> bool" where
  "truthy a = (case a of None \<Rightarrow> False | Some s \<Rightarrow> s \<noteq> [])"

text \<open>Decimal digits of a natural number, as an f-string prints an HTTP status code.\<close>

function show_nat :: "nat \<Rightarrow> string" where
  "show_nat n =
     (if n < 10 then [''0123456789'' ! n]
      else show_nat (n div 10) @ [''0123456789'' ! (n mod 10)])"
  by pat_completeness auto
termination
  by (relation "measure id") auto

declare show_nat.simps [simp del]

text \<open>\<^verbatim>\<open>os.getenv(key, default)\<close>: the default is used only when the variable is not set.\<close>

type_synonym environ = "string \<rightharpoonup> string"

definition os_getenv :: "environ \<Rightarrow> string \<Rightarrow> string \<Rightarrow> string" where
  "os_getenv env key dflt = (case env key of None \<Rightarrow> dflt | Some v \<Rightarrow> v)"

section \<open>Requests, the network and the outcome of a process\<close>

text \<open>
  A request as handed to \<^verbatim>\<open>urlopen\<close>. \<open>req_data\<close> is the payload that is serialised into
  the body; \<open>req_timeout\<close> is the \<^verbatim>\<open>timeout=\<close> argument in seconds, \<open>None\<close> when the
  call passes none. A \<^verbatim>\<open>Request\<close> built without a method and without data is a GET.
\<close>

record request =
  req_url :: string
  req_method :: string
  req_data :: "json option"
  req_headers :: "(string \<times> string) list"
  req_timeout :: "nat option"

text \<open>
  What one call of \<^verbatim>\<open>urlopen\<close> does: it returns a response (status 2xx) with the body
  bytes, or raises \<^verbatim>\<open>HTTPError\<close> with status code and body bytes, or raises \<^verbatim>\<open>URLError\<close>
  (connection refused, name resolution), or raises another exception (a socket timeout
  while reading, for instance). For the last two the string is \<^verbatim>\<open>str(e)\<close>.
\<close>

datatype outcome =
    Success string
  | HTTPError nat string
  | URLError string
  | OtherError string

type_synonym network = "request \<Rightarrow> outcome"

text \<open>
  What is observed of a finished process: the exit status, the texts given to \<^verbatim>\<open>print\<close>
  on standard output and on standard error (one entry per call), the exception that
  reached the top level if one did (the interpreter then writes its traceback to
  standard error and the status is 1), and the calls of \<^verbatim>\<open>urlopen\<close> that were made.
\<close>

record proc =
  exit_code :: nat
  stdout :: "string list"
  stderr :: "string list"
  uncaught :: "pyexn option"
  requests :: "request list"

definition exit_ok :: "string \<Rightarrow> request list \<Rightarrow> proc" where
  "exit_ok text sent =
     \<lparr>exit_code = 0, stdout = [text], stderr = [], uncaught = None, requests = sent\<rparr>"

definition exit_error :: "string \<Rightarrow> request list \<Rightarrow> proc" where
  "exit_error text sent =
     \<lparr>exit_code = 1, stdout = [], stderr = [text], uncaught = None, requests = sent\<rparr>"

definition crash :: "pyexn \<Rightarrow> request list \<Rightarrow> proc" where
  "crash e sent =
     \<lparr>exit_code = 1, stdout = [], stderr = [], uncaught = Some e, requests = sent\<rparr>"

section \<open>The request functions\<close>

text \<open>
  \<^verbatim>\<open>{'error': str(e)}\<close>, the dict every \<^verbatim>\<open>make_request\<close> returns from its last handler.
\<close>

definition error_object :: "string \<Rightarrow> json" where
  "error_object m = JObj [(''error'', JStr m)]"

text \<open>
  The \<^verbatim>\<open>try\<close> statement of \<^verbatim>\<open>make_request\<close> in \<^verbatim>\<open>create_agent.py\<close>, \<^verbatim>\<open>delete_agent.py\<close>,
  \<^verbatim>\<open>delete_queue.py\<close>, \<^verbatim>\<open>get_agent_status.py\<close>, \<^verbatim>\<open>get_queue_info.py\<close>, \<^verbatim>\<open>list_agents.py\<close>
  and \<^verbatim>\<open>list_queues.py\<close> (the same text in all seven). \<open>Inl\<close> is an exception that leaves
  \<^verbatim>\<open>make_request\<close>: one raised inside the \<^verbatim>\<open>HTTPError\<close> handler is not seen by the
  \<^verbatim>\<open>except Exception\<close> clause of the same statement.
\<close>

definition try_urlopen :: "pylib \<Rightarrow> network \<Rightarrow> request \<Rightarrow> pyexn + json" where
  "try_urlopen lib net req =
     (case net req of
        Success raw \<Rightarrow>
          (case utf8_decode lib raw of
             Inl m \<Rightarrow> Inr (error_object m)
           | Inr text \<Rightarrow>
               (case json_loads lib text of
                  Inl m \<Rightarrow> Inr (error_object m)
                | Inr response_data \<Rightarrow> Inr response_data))
      | HTTPError code raw \<Rightarrow>
          (case utf8_decode lib raw of
             Inl m \<Rightarrow> Inl (UnicodeDecodeError m)
           | Inr error_body \<Rightarrow>
               (case json_loads lib error_body of
                  Inl m \<Rightarrow>
                    Inr (JObj [(''error'', JStr error_body), (''status'', JInt (int code))])
                | Inr error_data \<Rightarrow>
                    (case error_data of
                       JObj kvs \<Rightarrow>
                         Inr (JObj [(''error'', dict_get kvs ''error'' (JStr error_body)),
                                    (''status'', JInt (int code))])
                     | _ \<Rightarrow> Inl AttributeError)))
      | URLError m \<Rightarrow> Inr (error_object m)
      | OtherError m \<Rightarrow> Inr (error_object m))"

text \<open>
  \<^verbatim>\<open>make_request(url)\<close> of \<^verbatim>\<open>get_agent_status.py\<close>, \<^verbatim>\<open>get_queue_info.py\<close>, \<^verbatim>\<open>list_agents.py\<close>
  and \<^verbatim>\<open>list_queues.py\<close>. The \<^verbatim>\<open>Request\<close> is built before the \<^verbatim>\<open>try\<close>, so a URL the
  constructor rejects raises out of the function. The second component lists the calls
  of \<^verbatim>\<open>urlopen\<close>.
\<close>

definition make_request_read ::
  "pylib \<Rightarrow> network \<Rightarrow> string \<Rightarrow> (pyexn + json) \<times> request list" where
  "make_request_read lib net url =
     (case request_ctor lib url of
        Some m \<Rightarrow> (Inl (ValueError m), [])
      | None \<Rightarrow>
          (let request = \<lparr>req_url = url, req_method = ''GET'', req_data = None,
                          req_headers = [], req_timeout = Some 30\<rparr>
           in (try_urlopen lib net request, [request])))"

text \<open>\<^verbatim>\<open>make_request(url, method)\<close> of \<^verbatim>\<open>delete_agent.py\<close> and \<^verbatim>\<open>delete_queue.py\<close>.\<close>

definition make_request_delete ::
  "pylib \<Rightarrow> network \<Rightarrow> string \<Rightarrow> string \<Rightarrow> (pyexn + json) \<times> request list" where
  "make_request_delete lib net url method =
     (case request_ctor lib url of
        Some m \<Rightarrow> (Inl (ValueError m), [])
      | None \<Rightarrow>
          (let request = \<lparr>req_url = url, req_method = method, req_data = None,
                          req_headers = [], req_timeout = Some 30\<rparr>
           in (try_urlopen lib net request, [request])))"

text \<open>
  \<^verbatim>\<open>make_request(url, method, data)\<close> of \<^verbatim>\<open>create_agent.py\<close>; \<open>data\<close> is a dict, and
  \<^verbatim>\<open>if data:\<close> holds when it is not empty.
\<close>

definition make_request_create ::
  "pylib \<Rightarrow> network \<Rightarrow> string \<Rightarrow> string \<Rightarrow> (string \<times> json) list
     \<Rightarrow> (pyexn + json) \<times> request list" where
  "make_request_create lib net url method data =
     (let req_data = (if data \<noteq> [] then Some (JObj data) else None)
      in case request_ctor lib url of
           Some m \<Rightarrow> (Inl (ValueError m), [])
         | None \<Rightarrow>
             (let request = \<lparr>req_url = url, req_method = method, req_data = req_data,
                             req_headers = [(''Content-Type'', ''application/json'')],
                             req_timeout = Some 30\<rparr>
              in (try_urlopen lib net request, [request])))"

text \<open>
  The handlers of \<^verbatim>\<open>make_request\<close> in \<^verbatim>\<open>check_task_operator_lock.py\<close>,
  \<^verbatim>\<open>clear_task_operator_lock.py\<close>, \<^verbatim>\<open>disable_task_operator.py\<close> and \<^verbatim>\<open>enable_task_operator.py\<close>,
  applied to the outcome of \<^verbatim>\<open>urlopen(req)\<close>.
\<close>

definition try_urlopen_plain :: "pylib \<Rightarrow> network \<Rightarrow> request \<Rightarrow> pyexn + json" where
  "try_urlopen_plain lib net req =
     (case net req of
        Success raw \<Rightarrow>
          (case utf8_decode lib raw of
             Inl m \<Rightarrow> Inr (error_object m)
           | Inr response_data \<Rightarrow>
               (case json_loads lib response_data of
                  Inl m \<Rightarrow> Inr (error_object m)
                | Inr v \<Rightarrow> Inr v))
      | HTTPError code raw \<Rightarrow>
          (case utf8_decode lib raw of
             Inl m \<Rightarrow> Inl (UnicodeDecodeError m)
           | Inr error_body \<Rightarrow>
               (case json_loads lib error_body of
                  Inl m \<Rightarrow>
                    Inr (error_object (''HTTP '' @ show_nat code @ '': '' @ error_body))
                | Inr error_data \<Rightarrow>
                    (case error_data of
                       JObj kvs \<Rightarrow>
                         Inr (JObj [(''error'',
                                dict_get kvs ''error''
                                  (JStr (''HTTP '' @ show_nat code @ '': '' @ error_body)))])
                     | _ \<Rightarrow> Inl AttributeError)))
      | URLError m \<Rightarrow> Inr (error_object (''Connection error: '' @ m))
      | OtherError m \<Rightarrow> Inr (error_object m))"

text \<open>
  \<^verbatim>\<open>make_request(url, method)\<close> of \<^verbatim>\<open>check_task_operator_lock.py\<close>,
  \<^verbatim>\<open>clear_task_operator_lock.py\<close> and \<^verbatim>\<open>disable_task_operator.py\<close>. The \<^verbatim>\<open>Request\<close> is built
  inside the \<^verbatim>\<open>try\<close>, so its \<^verbatim>\<open>ValueError\<close> is caught by \<^verbatim>\<open>except Exception\<close>; \<^verbatim>\<open>urlopen\<close>
  is called without a timeout.
\<close>

definition make_request_lock ::
  "pylib \<Rightarrow> network \<Rightarrow> string \<Rightarrow> string \<Rightarrow> (pyexn + json) \<times> request list" where
  "make_request_lock lib net url method =
     (case request_ctor lib url of
        Some m \<Rightarrow> (Inr (error_object m), [])
      | None \<Rightarrow>
          (let req = \<lparr>req_url = url, req_method = method, req_data = None,
                      req_headers = [(''Content-Type'', ''application/json'')],
                      req_timeout = None\<rparr>
           in (try_urlopen_plain lib net req, [req])))"

text \<open>\<^verbatim>\<open>make_request(url, method, data)\<close> of \<^verbatim>\<open>enable_task_operator.py\<close>.\<close>

definition make_request_enable ::
  "pylib \<Rightarrow> network \<Rightarrow> string \<Rightarrow> string \<Rightarrow> (string \<times> json) list
     \<Rightarrow> (pyexn + json) \<times> request list" where
  "make_request_enable lib net url method data =
     (let data_bytes = (if data \<noteq> [] then Some (JObj data) else None)
      in case request_ctor lib url of
           Some m \<Rightarrow> (Inr (error_object m), [])
         | None \<Rightarrow>
             (let req = \<lparr>req_url = url, req_method = method, req_data = data_bytes,
                         req_headers = [(''Content-Type'', ''application/json'')],
                         req_timeout = None\<rparr>
              in (try_urlopen_plain lib net req, [req])))"

section \<open>Reporting the result\<close>

text \<open>
  The end of \<^verbatim>\<open>main\<close> in the seven scripts that print the error as JSON:
  \<^verbatim>\<open>if 'error' in result: print(json.dumps(result, indent=2), file=sys.stderr); sys.exit(1)\<close>,
  then \<^verbatim>\<open>print(json.dumps(result, indent=2))\<close>. An exception that left \<^verbatim>\<open>make_request\<close>, or
  the \<^verbatim>\<open>TypeError\<close> of the membership test, reaches the top level.
\<close>

definition report_json :: "pylib \<Rightarrow> (pyexn + json) \<times> request list \<Rightarrow> proc" where
  "report_json lib r =
     (case r of
        (Inl e, sent) \<Rightarrow> crash e sent
      | (Inr result, sent) \<Rightarrow>
          (case py_in ''error'' result of
             None \<Rightarrow> crash TypeError sent
           | Some found \<Rightarrow>
               if found then exit_error (json_dumps_indent2 lib result) sent
               else exit_ok (json_dumps_indent2 lib result) sent))"

text \<open>
  The end of \<^verbatim>\<open>main\<close> in the four task-operator scripts:
  \<^verbatim>\<open>if 'error' in result: print(f"Error: {result['error']}", file=sys.stderr); sys.exit(1)\<close>,
  then \<^verbatim>\<open>print(json.dumps(result, indent=2, default=str))\<close>.
\<close>

definition report_plain :: "pylib \<Rightarrow> (pyexn + json) \<times> request list \<Rightarrow> proc" where
  "report_plain lib r =
     (case r of
        (Inl e, sent) \<Rightarrow> crash e sent
      | (Inr result, sent) \<Rightarrow>
          (case py_in ''error'' result of
             None \<Rightarrow> crash TypeError sent
           | Some found \<Rightarrow>
               if found then
                 (case py_getitem result ''error'' of
                    Inl e \<Rightarrow> crash e sent
                  | Inr v \<Rightarrow> exit_error (''Error: '' @ py_format lib v) sent)
               else exit_ok (json_dumps_indent2 lib result) sent))"

section \<open>create\_agent.py\<close>

text \<open>
  The namespace returned by \<^verbatim>\<open>parse_arguments\<close>: \<open>headers\<close> defaults to \<^verbatim>\<open>'{}'\<close>,
  \<open>method_arg\<close> (the flag \<^verbatim>\<open>--method\<close>) to \<^verbatim>\<open>'POST'\<close>, \<open>timeout\<close> to 30000; \<open>body\<close>, \<open>schedule\<close> and \<open>queue\<close>
  are \<^verbatim>\<open>None\<close> when the flag is not given.
\<close>

record create_args =
  name :: string
  target_url :: string
  method_arg :: string
  headers :: string
  body :: "string option"
  schedule :: "string option"
  one_time :: bool
  timeout :: int
  queue :: "string option"

text \<open>
  \<^verbatim>\<open>validate_arguments\<close>: \<open>None\<close> when it returns, \<open>Some p\<close> when the process ends in it.
  The \<^verbatim>\<open>ValueError\<close> raised for headers that are not a dict is not a
  \<^verbatim>\<open>json.JSONDecodeError\<close>, so the \<^verbatim>\<open>except\<close> clause does not catch it.
\<close>

definition validate_arguments :: "pylib \<Rightarrow> create_args \<Rightarrow> proc option" where
  "validate_arguments lib args =
     (if \<not> one_time args \<and> \<not> truthy (schedule args) then
        Some (exit_error
          ''Error: Either --one-time must be true or --schedule must be provided'' [])
      else
        (case json_loads lib (headers args) of
           Inl e \<Rightarrow> Some (exit_error (''Error: Invalid JSON in --headers: '' @ e) [])
         | Inr hdrs \<Rightarrow>
             (case hdrs of
                JObj kvs \<Rightarrow>
                  (case body args of
                     None \<Rightarrow> None
                   | Some b \<Rightarrow>
                       if b \<noteq> [] then
                         (case json_loads lib b of
                            Inl e \<Rightarrow>
                              Some (exit_error (''Error: Invalid JSON in --body: '' @ e) [])
                          | Inr v \<Rightarrow> None)
                       else None)
              | _ \<Rightarrow> Some (crash (ValueError ''Headers must be a JSON object'') []))))"

text \<open>
  \<^verbatim>\<open>build_agent_config\<close>: the dict in insertion order. The six fixed keys come first;
  \<open>body\<close>, \<open>schedule\<close> and \<open>queue\<close> are assigned after them, in this order, each
  under its own test. \<open>Inl\<close> when one of the two calls of \<^verbatim>\<open>json.loads\<close> raises.
\<close>

definition build_agent_config ::
  "pylib \<Rightarrow> create_args \<Rightarrow> pyexn + (string \<times> json) list" where
  "build_agent_config lib args =
     (case json_loads lib (headers args) of
        Inl e \<Rightarrow> Inl (JSONDecodeError e)
      | Inr hdrs \<Rightarrow>
          (let config = [(''name'', JStr (name args)),
                         (''targetUrl'', JStr (target_url args)),
                         (''method'', JStr (method_arg args)),
                         (''headers'', hdrs),
                         (''oneTime'', JBool (one_time args)),
                         (''timeout'', JInt (timeout args))];
               schedule_item =
                 (case schedule args of
                    None \<Rightarrow> []
                  | Some s \<Rightarrow>
                      if \<not> one_time args \<and> s \<noteq> [] then [(''schedule'', JStr s)] else []);
               queue_item =
                 (case queue args of
                    None \<Rightarrow> []
                  | Some q \<Rightarrow> if q \<noteq> [] then [(''queue'', JStr q)] else [])
           in case body args of
                None \<Rightarrow> Inr (config @ schedule_item @ queue_item)
              | Some b \<Rightarrow>
                  if b \<noteq> [] then
                    (case json_loads lib b of
                       Inl e \<Rightarrow> Inl (JSONDecodeError e)
                     | Inr v \<Rightarrow> Inr (config @ [(''body'', v)] @ schedule_item @ queue_item))
                  else Inr (config @ schedule_item @ queue_item)))"

text \<open>The base URL every \<^verbatim>\<open>main\<close> reads from the environment.\<close>

definition api_url :: "environ \<Rightarrow> string" where
  "api_url env = os_getenv env ''CURSOR_AGENTS_URL'' ''http://cursor-agents:3002''"

definition create_agent_main :: "pylib \<Rightarrow> environ \<Rightarrow> network \<Rightarrow> create_args \<Rightarrow> proc" where
  "create_agent_main lib env net args =
     (case validate_arguments lib args of
        Some p \<Rightarrow> p
      | None \<Rightarrow>
          (case build_agent_config lib args of
             Inl e \<Rightarrow> crash e []
           | Inr config \<Rightarrow>
               (let url = api_url env @ ''/agents''
                in report_json lib (make_request_create lib net url ''POST'' config))))"

section \<open>The other scripts\<close>

definition delete_agent_main :: "pylib \<Rightarrow> environ \<Rightarrow> network \<Rightarrow> string \<Rightarrow> proc" where
  "delete_agent_main lib env net agent_name =
     (let url = api_url env @ ''/agents/'' @ agent_name
      in report_json lib (make_request_delete lib net url ''DELETE''))"

definition delete_queue_main :: "pylib \<Rightarrow> environ \<Rightarrow> network \<Rightarrow> string \<Rightarrow> proc" where
  "delete_queue_main lib env net queue_name =
     (let url = api_url env @ ''/queues/'' @ queue_name
      in report_json lib (make_request_delete lib net url ''DELETE''))"

definition get_agent_status_main :: "pylib \<Rightarrow> environ \<Rightarrow> network \<Rightarrow> string \<Rightarrow> proc" where
  "get_agent_status_main lib env net agent_name =
     (let url = api_url env @ ''/agents/'' @ agent_name
      in report_json lib (make_request_read lib net url))"

definition get_queue_info_main :: "pylib \<Rightarrow> environ \<Rightarrow> network \<Rightarrow> string \<Rightarrow> proc" where
  "get_queue_info_main lib env net queue_name =
     (let url = api_url env @ ''/queues/'' @ queue_name
      in report_json lib (make_request_read lib net url))"

definition list_agents_main :: "pylib \<Rightarrow> environ \<Rightarrow> network \<Rightarrow> proc" where
  "list_agents_main lib env net =
     (let url = api_url env @ ''/agents''
      in report_json lib (make_request_read lib net url))"

definition list_queues_main :: "pylib \<Rightarrow> environ \<Rightarrow> network \<Rightarrow> proc" where
  "list_queues_main lib env net =
     (let url = api_url env @ ''/queues''
      in report_json lib (make_request_read lib net url))"

definition check_task_operator_lock_main :: "pylib \<Rightarrow> environ \<Rightarrow> network \<Rightarrow> proc" where
  "check_task_operator_lock_main lib env net =
     (let url = api_url env @ ''/task-operator/lock''
      in report_plain lib (make_request_lock lib net url ''GET''))"

definition clear_task_operator_lock_main :: "pylib \<Rightarrow> environ \<Rightarrow> network \<Rightarrow> proc" where
  "clear_task_operator_lock_main lib env net =
     (let url = api_url env @ ''/task-operator/lock''
      in report_plain lib (make_request_lock lib net url ''DELETE''))"

definition disable_task_operator_main :: "pylib \<Rightarrow> environ \<Rightarrow> network \<Rightarrow> proc" where
  "disable_task_operator_main lib env net =
     (let url = api_url env @ ''/task-operator''
      in report_plain lib (make_request_lock lib net url ''DELETE''))"

text \<open>
  \<^verbatim>\<open>enable_task_operator.py\<close>: the argument is the value of \<^verbatim>\<open>--queue\<close> (default
  \<^verbatim>\<open>'task-operator'\<close>); the body dict has the key \<^verbatim>\<open>queue\<close> when that value is not empty.
\<close>

definition enable_task_operator_main :: "pylib \<Rightarrow> environ \<Rightarrow> network \<Rightarrow> string \<Rightarrow> proc" where
  "enable_task_operator_main lib env net queue_arg =
     (let url = api_url env @ ''/task-operator'';
          body_dict = (if queue_arg \<noteq> [] then [(''queue'', JStr queue_arg)] else [])
      in report_plain lib (make_request_enable lib net url ''POST'' body_dict))"

section \<open>The eleven commands\<close>

text \<open>
  A command with the arguments its parser produced. The parsers themselves
  (\<^verbatim>\<open>argparse\<close>) are not modelled: a command line they reject, and \<^verbatim>\<open>--help\<close>, end the
  process before any code of the scripts below runs.
\<close>

datatype command =
    CheckLock
  | ClearLock
  | CreateAgent create_args
  | DeleteAgent string
  | DeleteQueue string
  | DisableTaskOperator
  | EnableTaskOperator string
  | GetAgentStatus string
  | GetQueueInfo string
  | ListAgents
  | ListQueues

definition run :: "pylib \<Rightarrow> environ \<Rightarrow> network \<Rightarrow> command \<Rightarrow> proc" where
  "run lib env net cmd =
     (case cmd of
        CheckLock \<Rightarrow> check_task_operator_lock_main lib env net
      | ClearLock \<Rightarrow> clear_task_operator_lock_main lib env net
      | CreateAgent args \<Rightarrow> create_agent_main lib env net args
      | DeleteAgent n \<Rightarrow> delete_agent_main lib env net n
      | DeleteQueue q \<Rightarrow> delete_queue_main lib env net q
      | DisableTaskOperator \<Rightarrow> disable_task_operator_main lib env net
      | EnableTaskOperator q \<Rightarrow> enable_task_operator_main lib env net q
      | GetAgentStatus n \<Rightarrow> get_agent_status_main lib env net n
      | GetQueueInfo q \<Rightarrow> get_queue_info_main lib env net q
      | ListAgents \<Rightarrow> list_agents_main lib env net
      | ListQueues \<Rightarrow> list_queues_main lib env net)"

text \<open>The path each command appends to the base URL.\<close>

definition command_path :: "command \<Rightarrow> string" where
  "command_path cmd =
     (case cmd of
        CheckLock \<Rightarrow> ''/task-operator/lock''
      | ClearLock \<Rightarrow> ''/task-operator/lock''
      | CreateAgent args \<Rightarrow> ''/agents''
      | DeleteAgent n \<Rightarrow> ''/agents/'' @ n
      | DeleteQueue q \<Rightarrow> ''/queues/'' @ q
      | DisableTaskOperator \<Rightarrow> ''/task-operator''
      | EnableTaskOperator q \<Rightarrow> ''/task-operator''
      | GetAgentStatus n \<Rightarrow> ''/agents/'' @ n
      | GetQueueInfo q \<Rightarrow> ''/queues/'' @ q
      | ListAgents \<Rightarrow> ''/agents''
      | ListQueues \<Rightarrow> ''/queues'')"

text \<open>
  The four task-operator scripts print the error as the text \<^verbatim>\<open>Error: ...\<close>; the other
  seven print the error dict as JSON.
\<close>

definition prints_plain_error :: "command \<Rightarrow> bool" where
  "prints_plain_error cmd =
     (case cmd of
        CheckLock \<Rightarrow> True
      | ClearLock \<Rightarrow> True
      | DisableTaskOperator \<Rightarrow> True
      | EnableTaskOperator q \<Rightarrow> True
      | _ \<Rightarrow> False)"

section \<open>A concrete library for evaluating the model\<close>

text \<open>
  To run the model on concrete inputs the library parameters need values. The ones
  below agree with Python on the inputs used in this theory: \<open>sample_loads\<close> knows a
  handful of texts and rejects every other one with the message \<^verbatim>\<open>json.loads\<close> gives
  for a text that does not start a JSON value; \<open>sample_dumps\<close> lays a value out as
  \<^verbatim>\<open>json.dumps(v, indent=2)\<close> does, for strings of printable ASCII and values without
  floats; \<open>sample_ctor\<close> rejects a URL that has no scheme, as \<^verbatim>\<open>Request\<close> does.
\<close>

definition quote_str :: "string \<Rightarrow> string" where
  "quote_str s =
     [CHR 0x22]
     @ concat (map (\<lambda>c. if c = CHR 0x22 \<or> c = CHR 0x5C then [CHR 0x5C, c] else [c]) s)
     @ [CHR 0x22]"

definition error_X_text :: string where
  "error_X_text = ''{'' @ quote_str ''error'' @ '': '' @ quote_str ''X'' @ ''}''"

definition sample_loads :: "string \<Rightarrow> string + json" where
  "sample_loads s =
     (if s = ''{}'' then Inr (JObj [])
      else if s = ''[]'' then Inr (JArr [])
      else if s = ''[1,2]'' then Inr (JArr [JInt 1, JInt 2])
      else if s = ''null'' then Inr JNull
      else if s = error_X_text then Inr (JObj [(''error'', JStr ''X'')])
      else Inl ''Expecting value: line 1 column 1 (char 0)'')"

fun join :: "string \<Rightarrow> string list \<Rightarrow> string" where
  "join sep [] = []"
| "join sep [x] = x"
| "join sep (x # y # ys) = x @ sep @ join sep (y # ys)"

definition show_int :: "int \<Rightarrow> string" where
  "show_int i = (if i < 0 then CHR ''-'' # show_nat (nat (- i)) else show_nat (nat i))"

definition indent :: "nat \<Rightarrow> string" where
  "indent lvl = concat (replicate lvl ''  '')"

fun render :: "nat \<Rightarrow> json \<Rightarrow> string" where
  "render lvl JNull = ''null''"
| "render lvl (JBool b) = (if b then ''true'' else ''false'')"
| "render lvl (JInt i) = show_int i"
| "render lvl (JFloat f) = ''0.0''"
| "render lvl (JStr s) = quote_str s"
| "render lvl (JArr xs) =
     (if xs = [] then ''[]''
      else ''[\<newline>''
           @ join '',\<newline>'' (map (\<lambda>x. indent (Suc lvl) @ render (Suc lvl) x) xs)
           @ ''\<newline>'' @ indent lvl @ '']'')"
| "render lvl (JObj kvs) =
     (if kvs = [] then ''{}''
      else ''{\<newline>''
           @ join '',\<newline>''
               (map (\<lambda>kv. indent (Suc lvl) @ quote_str (fst kv) @ '': ''
                             @ render (Suc lvl) (snd kv)) kvs)
           @ ''\<newline>'' @ indent lvl @ ''}'')"

definition sample_dumps :: "json \<Rightarrow> string" where
  "sample_dumps v = render 0 v"

definition sample_ctor :: "string \<Rightarrow> string option" where
  "sample_ctor url =
     (let is_scheme_char = (\<lambda>c. c \<noteq> CHR '':'' \<and> c \<noteq> CHR ''/'')
      in case dropWhile is_scheme_char url of
           c # rest \<Rightarrow>
             if c = CHR '':'' \<and> takeWhile is_scheme_char url \<noteq> [] then None
             else Some (''unknown url type: '' @ [CHR 0x27] @ url @ [CHR 0x27])
         | [] \<Rightarrow> Some (''unknown url type: '' @ [CHR 0x27] @ url @ [CHR 0x27]))"

definition sample_lib :: pylib where
  "sample_lib =
     \<lparr>utf8_decode = (\<lambda>raw. Inr raw),
      json_loads = sample_loads,
      json_dumps_indent2 = sample_dumps,
      py_repr = sample_dumps,
      request_ctor = sample_ctor\<rparr>"

text \<open>Arguments of \<^verbatim>\<open>create_agent.py\<close> with every optional flag left out.\<close>

definition sample_args :: create_args where
  "sample_args =
     \<lparr>name = ''test-agent'', target_url = ''http://cursor-runner:3001/health'',
      method_arg = ''POST'', headers = ''{}'', body = None, schedule = None,
      one_time = False, timeout = 30000, queue = None\<rparr>"

text \<open>
  A network that gives the same outcome to every request, an environment without
  \<^verbatim>\<open>CURSOR_AGENTS_URL\<close>, and one that sets it.
\<close>

definition answering :: "outcome \<Rightarrow> network" where
  "answering out req = out"

definition unset_env :: environ where
  "unset_env = Map.empty"

definition env_url :: "string \<Rightarrow> environ" where
  "env_url v = [''CURSOR_AGENTS_URL'' \<mapsto> v]"

text \<open>The request \<^verbatim>\<open>list_agents.py\<close> and its siblings send to the default base URL.\<close>

definition sample_request :: "string \<Rightarrow> request" where
  "sample_request path =
     \<lparr>req_url = ''http://cursor-agents:3002'' @ path, req_method = ''GET'', req_data = None,
      req_headers = [], req_timeout = Some 30\<rparr>"

text \<open>The method each \<^verbatim>\<open>main\<close> gives to its request.\<close>

definition command_method :: "command \<Rightarrow> string" where
  "command_method cmd =
     (case cmd of
        CheckLock \<Rightarrow> ''GET''
      | ClearLock \<Rightarrow> ''DELETE''
      | CreateAgent args \<Rightarrow> ''POST''
      | DeleteAgent n \<Rightarrow> ''DELETE''
      | DeleteQueue q \<Rightarrow> ''DELETE''
      | DisableTaskOperator \<Rightarrow> ''DELETE''
      | EnableTaskOperator q \<Rightarrow> ''POST''
      | GetAgentStatus n \<Rightarrow> ''GET''
      | GetQueueInfo q \<Rightarrow> ''GET''
      | ListAgents \<Rightarrow> ''GET''
      | ListQueues \<Rightarrow> ''GET'')"

text \<open>
  The request \<^verbatim>\<open>check_task_operator_lock.py\<close> sends to the default base URL, and the one
  \<^verbatim>\<open>list_agents.py\<close> sends when \<^verbatim>\<open>CURSOR_AGENTS_URL\<close> is \<^verbatim>\<open>http://example:9000\<close>.
\<close>

definition lock_request :: request where
  "lock_request =
     \<lparr>req_url = ''http://cursor-agents:3002/task-operator/lock'', req_method = ''GET'',
      req_data = None, req_headers = [(''Content-Type'', ''application/json'')],
      req_timeout = None\<rparr>"

definition example_request :: request where
  "example_request =
     \<lparr>req_url = ''http://example:9000/agents'', req_method = ''GET'', req_data = None,
      req_headers = [], req_timeout = Some 30\<rparr>"


definition array_headers_args :: create_args where
  "array_headers_args = sample_args\<lparr>headers := ''[1,2]''\<rparr>"

definition one_time_array_headers_args :: create_args where
  "one_time_array_headers_args = sample_args\<lparr>headers := ''[1,2]'', one_time := True\<rparr>"

definition empty_body_args :: create_args where
  "empty_body_args = sample_args\<lparr>body := Some [], one_time := True\<rparr>"

definition one_time_schedule_args :: create_args where
  "one_time_schedule_args =
     sample_args\<lparr>body := Some ''{}'', schedule := Some ''0 0 * * *'', one_time := True\<rparr>"

section \<open>The shape of a run\<close>

lemmas main_defs =
  check_task_operator_lock_main_def clear_task_operator_lock_main_def
  delete_agent_main_def delete_queue_main_def
  disable_task_operator_main_def enable_task_operator_main_def
  get_agent_status_main_def get_queue_info_main_def list_agents_main_def
  list_queues_main_def

lemmas end_defs = exit_ok_def exit_error_def crash_def

lemma requests_report_json [simp]: "requests (report_json lib (r, sent)) = sent"
  by (simp add: report_json_def end_defs split: sum.splits option.splits)

lemma requests_report_plain [simp]: "requests (report_plain lib (r, sent)) = sent"
  by (simp add: report_plain_def end_defs split: sum.splits option.splits)

lemma validate_arguments_requests:
  "validate_arguments lib args = Some p \<Longrightarrow> requests p = []"
  by (auto simp: validate_arguments_def end_defs
      split: if_splits sum.splits json.splits option.splits)

text \<open>
  When a script has called \<^verbatim>\<open>urlopen\<close> with \<open>req\<close>, its \<^verbatim>\<open>make_request\<close> returned what
  the handlers make of the outcome of that call.
\<close>

lemma sent_read:
  assumes "requests (report_json lib (make_request_read lib net url)) = [req]"
  shows "make_request_read lib net url = (try_urlopen lib net req, [req])"
  using assms by (auto simp: make_request_read_def Let_def split: option.splits)

lemma sent_delete:
  assumes "requests (report_json lib (make_request_delete lib net url m)) = [req]"
  shows "make_request_delete lib net url m = (try_urlopen lib net req, [req])"
  using assms by (auto simp: make_request_delete_def Let_def split: option.splits)

lemma sent_create:
  assumes "requests (report_json lib (make_request_create lib net url m d)) = [req]"
  shows "make_request_create lib net url m d = (try_urlopen lib net req, [req])"
  using assms by (auto simp: make_request_create_def Let_def split: option.splits)

lemma sent_lock:
  assumes "requests (report_plain lib (make_request_lock lib net url m)) = [req]"
  shows "make_request_lock lib net url m = (try_urlopen_plain lib net req, [req])"
  using assms by (auto simp: make_request_lock_def Let_def split: option.splits)

lemma sent_enable:
  assumes "requests (report_plain lib (make_request_enable lib net url m d)) = [req]"
  shows "make_request_enable lib net url m d = (try_urlopen_plain lib net req, [req])"
  using assms by (auto simp: make_request_enable_def Let_def split: option.splits)

lemma create_agent_sent:
  assumes "requests (create_agent_main lib env net args) = [req]"
  shows "create_agent_main lib env net args = report_json lib (try_urlopen lib net req, [req])"
proof (cases "validate_arguments lib args")
  case (Some p)
  with assms show ?thesis
    by (simp add: create_agent_main_def validate_arguments_requests)
next
  case None
  show ?thesis
  proof (cases "build_agent_config lib args")
    case (Inl e)
    with None assms show ?thesis by (simp add: create_agent_main_def crash_def)
  next
    case (Inr config)
    with None assms show ?thesis
      by (simp add: create_agent_main_def Let_def sent_create)
  qed
qed

lemma run_sent:
  assumes "requests (run lib env net cmd) = [req]"
  shows "run lib env net cmd =
           (if prints_plain_error cmd
            then report_plain lib (try_urlopen_plain lib net req, [req])
            else report_json lib (try_urlopen lib net req, [req]))"
proof (cases cmd)
  case (CreateAgent args)
  with assms show ?thesis
    by (simp add: run_def prints_plain_error_def create_agent_sent)
qed (use assms in \<open>simp_all add: run_def prints_plain_error_def main_defs Let_def
       sent_read sent_delete sent_lock sent_enable\<close>)


lemma report_plain_error_object:
  "report_plain lib (Inr (error_object m), sent) = exit_error (''Error: '' @ m) sent"
  by (simp add: report_plain_def error_object_def py_in_def py_getitem_def py_format_def)

text \<open>With the default base URL, \<^verbatim>\<open>list_agents.py\<close> sends one GET to \<^verbatim>\<open>/agents\<close>.\<close>

lemma list_agents_sample_requests:
  "requests (run sample_lib unset_env net ListAgents) = [sample_request ''/agents'']"
  by (simp add: run_def list_agents_main_def make_request_read_def api_url_def os_getenv_def
      unset_env_def sample_lib_def sample_request_def sample_ctor_def Let_def)

lemma check_lock_sample_requests:
  "requests (run sample_lib unset_env net CheckLock) = [lock_request]"
  by (simp add: run_def check_task_operator_lock_main_def make_request_lock_def api_url_def
      os_getenv_def unset_env_def sample_lib_def lock_request_def sample_ctor_def Let_def)

lemma list_agents_example_requests:
  "requests (run sample_lib (env_url ''http://example:9000'') net ListAgents) = [example_request]"
  by (simp add: run_def list_agents_main_def make_request_read_def api_url_def os_getenv_def
      env_url_def sample_lib_def example_request_def sample_ctor_def Let_def)


lemma create_agent_request_shape:
  assumes "req \<in> set (requests (create_agent_main lib env net args))"
  shows "requests (create_agent_main lib env net args) = [req]
         \<and> req_url req = api_url env @ ''/agents''
         \<and> req_method req = ''POST''
         \<and> req_timeout req = Some 30
         \<and> request_ctor lib (req_url req) = None"
proof (cases "validate_arguments lib args")
  case (Some p)
  with assms show ?thesis
    by (simp add: create_agent_main_def validate_arguments_requests)
next
  case None
  show ?thesis
  proof (cases "build_agent_config lib args")
    case (Inl e)
    with None assms show ?thesis by (simp add: create_agent_main_def crash_def)
  next
    case (Inr config)
    with None assms show ?thesis
      by (auto simp: create_agent_main_def make_request_create_def Let_def split: option.splits)
  qed
qed

lemma run_request_shape:
  assumes "req \<in> set (requests (run lib env net cmd))"
  shows "requests (run lib env net cmd) = [req]
         \<and> req_url req = api_url env @ command_path cmd
         \<and> req_method req = command_method cmd
         \<and> req_timeout req = (if prints_plain_error cmd then None else Some 30)
         \<and> request_ctor lib (req_url req) = None"
proof (cases cmd)
  case (CreateAgent args)
  with assms create_agent_request_shape [of req lib env net args] show ?thesis
    by (auto simp: run_def prints_plain_error_def command_path_def command_method_def)
qed (use assms in \<open>auto simp: run_def prints_plain_error_def command_path_def command_method_def
       main_defs Let_def make_request_read_def make_request_delete_def make_request_lock_def
       make_request_enable_def split: option.splits\<close>)

















text \<open>What \<^verbatim>\<open>validate_arguments\<close> has checked when it returns.\<close>

lemma validate_arguments_schedule:
  assumes "validate_arguments lib args = None"
  shows "one_time args \<or> truthy (schedule args)"
  using assms by (auto simp: validate_arguments_def split: if_splits)

lemma validate_arguments_headers:
  assumes "validate_arguments lib args = None"
  shows "\<exists>kvs. json_loads lib (headers args) = Inr (JObj kvs)"
proof (cases "json_loads lib (headers args)")
  case (Inl e)
  with assms show ?thesis
    by (simp add: validate_arguments_def split: if_splits)
next
  case (Inr v)
  with assms show ?thesis
    by (cases v) (simp_all add: validate_arguments_def split: if_splits)
qed

lemma validate_arguments_body:
  assumes "validate_arguments lib args = None" and "body args = Some b" and "b \<noteq> []"
  shows "\<exists>v. json_loads lib b = Inr v"
proof -
  from validate_arguments_headers [OF assms(1)]
  obtain kvs where h: "json_loads lib (headers args) = Inr (JObj kvs)" by blast
  show ?thesis
  proof (cases "json_loads lib b")
    case (Inl e)
    with assms h show ?thesis
      by (simp add: validate_arguments_def split: if_splits)
  next
    case (Inr v)
    then show ?thesis by simp
  qed
qed


lemma build_agent_config_keys:
  assumes "validate_arguments lib args = None"
  shows "\<exists>config.
           build_agent_config lib args = Inr config
           \<and> map fst config =
               [''name'', ''targetUrl'', ''method'', ''headers'', ''oneTime'', ''timeout'']
               @ (if truthy (body args) then [''body''] else [])
               @ (if \<not> one_time args \<and> truthy (schedule args) then [''schedule''] else [])
               @ (if truthy (queue args) then [''queue''] else [])"
proof -
  from validate_arguments_headers [OF assms]
  obtain kvs where h: "json_loads lib (headers args) = Inr (JObj kvs)" by blast
  define sched where "sched =
    (case schedule args of
       None \<Rightarrow> []
     | Some s \<Rightarrow> if \<not> one_time args \<and> s \<noteq> [] then [(''schedule'', JStr s)] else [])"
  define que where "que =
    (case queue args of
       None \<Rightarrow> []
     | Some q \<Rightarrow> if q \<noteq> [] then [(''queue'', JStr q)] else [])"
  define base where "base =
    [(''name'', JStr (name args)), (''targetUrl'', JStr (target_url args)),
     (''method'', JStr (method_arg args)), (''headers'', JObj kvs),
     (''oneTime'', JBool (one_time args)), (''timeout'', JInt (timeout args))]"
  have ks: "map fst sched =
              (if \<not> one_time args \<and> truthy (schedule args) then [''schedule''] else [])"
    by (simp add: sched_def truthy_def split: option.splits)
  have kq: "map fst que = (if truthy (queue args) then [''queue''] else [])"
    by (simp add: que_def truthy_def split: option.splits)
  have kb: "map fst base =
              [''name'', ''targetUrl'', ''method'', ''headers'', ''oneTime'', ''timeout'']"
    by (simp add: base_def)
  have "\<exists>part. build_agent_config lib args = Inr (base @ part @ sched @ que)
               \<and> map fst part = (if truthy (body args) then [''body''] else [])"
  proof (cases "body args")
    case None
    with h have "build_agent_config lib args = Inr (base @ [] @ sched @ que)"
      by (simp add: build_agent_config_def Let_def base_def sched_def que_def)
    with None show ?thesis by (simp add: truthy_def)
  next
    case (Some b)
    show ?thesis
    proof (cases "b = []")
      case True
      with Some h have "build_agent_config lib args = Inr (base @ [] @ sched @ que)"
        by (simp add: build_agent_config_def Let_def base_def sched_def que_def)
      with Some True show ?thesis by (simp add: truthy_def)
    next
      case False
      with validate_arguments_body [OF assms Some]
      obtain v where v: "json_loads lib b = Inr v" by blast
      with False Some h
      have "build_agent_config lib args = Inr (base @ [(''body'', v)] @ sched @ que)"
        by (simp add: build_agent_config_def Let_def base_def sched_def que_def)
      moreover have "map fst [(''body'', v)] = (if truthy (body args) then [''body''] else [])"
        using Some False by (simp add: truthy_def)
      ultimately show ?thesis by blast
    qed
  qed
  then obtain part where c: "build_agent_config lib args = Inr (base @ part @ sched @ que)"
    and kp: "map fst part = (if truthy (body args) then [''body''] else [])"
    by blast
  have "map fst (base @ part @ sched @ que) =
               [''name'', ''targetUrl'', ''method'', ''headers'', ''oneTime'', ''timeout'']
               @ (if truthy (body args) then [''body''] else [])
               @ (if \<not> one_time args \<and> truthy (schedule args) then [''schedule''] else [])
               @ (if truthy (queue args) then [''queue''] else [])"
    unfolding map_append kb kp ks kq by (rule refl)
  with c show ?thesis by blast
qed

section \<open>Usage errors of create\_agent\<close>

text \<open>
  Claim C3. When \<^verbatim>\<open>--one-time\<close> is absent and \<^verbatim>\<open>--schedule\<close> is absent or empty,
  \<^verbatim>\<open>create_agent.py\<close> prints the usage error on standard error, exits with status 1 and
  never calls \<^verbatim>\<open>urlopen\<close>, whatever the library, the environment and the network do.
\<close>

theorem create_agent_requires_schedule:
  assumes "\<not> one_time args"
    and "schedule args = None \<or> schedule args = Some []"
  shows "create_agent_main lib env net args =
           \<lparr>exit_code = 1, stdout = [],
            stderr = [''Error: Either --one-time must be true or --schedule must be provided''],
            uncaught = None, requests = []\<rparr>"
  using assms
  by (auto simp: create_agent_main_def validate_arguments_def truthy_def exit_error_def)

text \<open>The instance with every optional flag left out.\<close>

theorem create_agent_requires_schedule_witness:
  "\<not> one_time sample_args
   \<and> (schedule sample_args = None \<or> schedule sample_args = Some [])
   \<and> create_agent_main sample_lib unset_env (answering (Success ''{}'')) sample_args =
           \<lparr>exit_code = 1, stdout = [],
            stderr = [''Error: Either --one-time must be true or --schedule must be provided''],
            uncaught = None, requests = []\<rparr>"
  using create_agent_requires_schedule [of sample_args sample_lib unset_env "answering (Success ''{}'')"]
  by (simp add: sample_args_def)

section \<open>A 2xx answer that is not JSON\<close>



section \<open>A successful answer\<close>




section \<open>The base URL\<close>

text \<open>
  Claim C2 as stated does not hold for a variable set to the empty string: \<^verbatim>\<open>os.getenv\<close>
  returns the empty string then, not the default.
\<close>

theorem empty_base_url_counterexample:
  "api_url (env_url []) = [] \<and> api_url (env_url []) \<noteq> ''http://cursor-agents:3002''"
  by (simp add: api_url_def os_getenv_def env_url_def)

text \<open>
  Claim C2, amended. For every command, every request that is sent goes to the value of
  \<^verbatim>\<open>CURSOR_AGENTS_URL\<close> when the variable is set (whatever its value, the empty string
  included), and to \<^verbatim>\<open>http://cursor-agents:3002\<close> when it is not set, followed in both
  cases by the path of the command, with nothing added or removed in between.
\<close>

theorem base_url_from_environment:
  "\<forall>req \<in> set (requests (run lib env net cmd)).
     req_url req =
       (case env ''CURSOR_AGENTS_URL'' of
          None \<Rightarrow> ''http://cursor-agents:3002''
        | Some v \<Rightarrow> v) @ command_path cmd"
proof
  fix req
  assume "req \<in> set (requests (run lib env net cmd))"
  then have "req_url req = api_url env @ command_path cmd"
    by (simp add: run_request_shape)
  then show "req_url req =
       (case env ''CURSOR_AGENTS_URL'' of
          None \<Rightarrow> ''http://cursor-agents:3002''
        | Some v \<Rightarrow> v) @ command_path cmd"
    by (simp add: api_url_def os_getenv_def)
qed

text \<open>
  The instances of the specification: \<^verbatim>\<open>http://example:9000\<close> is used as it is, and the
  default is used when the variable is not set.
\<close>

theorem base_url_from_environment_witness:
  "requests (run sample_lib (env_url ''http://example:9000'') (answering (Success ''{}'')) ListAgents)
     = [example_request]
   \<and> req_url example_request = ''http://example:9000/agents''
   \<and> requests (run sample_lib unset_env (answering (Success ''{}'')) ListAgents)
       = [sample_request ''/agents'']
   \<and> req_url (sample_request ''/agents'') = ''http://cursor-agents:3002/agents''"
proof -
  have e1: "env_url ''http://example:9000'' ''CURSOR_AGENTS_URL'' = Some ''http://example:9000''"
    by (simp add: env_url_def)
  have e2: "unset_env ''CURSOR_AGENTS_URL'' = None"
    by (simp add: unset_env_def)
  show ?thesis
    using base_url_from_environment
        [of sample_lib "env_url ''http://example:9000''" "answering (Success ''{}'')" ListAgents]
      base_url_from_environment
        [of sample_lib unset_env "answering (Success ''{}'')" ListAgents]
    by (simp add: list_agents_example_requests list_agents_sample_requests command_path_def
        e1 e2)
qed

section \<open>Transport failures\<close>



section \<open>HTTP errors\<close>

text \<open>
  What the scripts do with an \<^verbatim>\<open>HTTPError\<close> whose body is text. When the body is a JSON
  object, its \<^verbatim>\<open>error\<close> field is reported, and the raw body (with the status code) when
  the object has no such field; when the body is not JSON, the raw body and the status
  code are reported. When the body is JSON of another kind, \<^verbatim>\<open>error_data.get\<close> raises inside
  the handler and nothing catches it.
\<close>

lemma http_error_object_reported:
  assumes "requests (run lib env net cmd) = [req]"
    and "net req = HTTPError code raw"
    and "utf8_decode lib raw = Inr error_body"
    and "json_loads lib error_body = Inr (JObj kvs)"
  shows "run lib env net cmd =
           \<lparr>exit_code = 1, stdout = [],
            stderr =
              [if prints_plain_error cmd
               then ''Error: '' @ py_format lib
                      (dict_get kvs ''error''
                         (JStr (''HTTP '' @ show_nat code @ '': '' @ error_body)))
               else json_dumps_indent2 lib
                      (JObj [(''error'', dict_get kvs ''error'' (JStr error_body)),
                             (''status'', JInt (int code))])],
            uncaught = None, requests = [req]\<rparr>"
proof -
  have a: "try_urlopen lib net req =
             Inr (JObj [(''error'', dict_get kvs ''error'' (JStr error_body)),
                        (''status'', JInt (int code))])"
    using assms(2-4) by (simp add: try_urlopen_def)
  have b: "try_urlopen_plain lib net req =
             Inr (JObj [(''error'',
                    dict_get kvs ''error''
                      (JStr (''HTTP '' @ show_nat code @ '': '' @ error_body)))])"
    using assms(2-4) by (simp add: try_urlopen_plain_def)
  show ?thesis
    using a b run_sent [OF assms(1)]
    by (simp add: report_json_def report_plain_def py_in_def py_getitem_def exit_error_def)
qed

lemma http_error_text_reported:
  assumes "requests (run lib env net cmd) = [req]"
    and "net req = HTTPError code raw"
    and "utf8_decode lib raw = Inr error_body"
    and "json_loads lib error_body = Inl e"
  shows "run lib env net cmd =
           \<lparr>exit_code = 1, stdout = [],
            stderr =
              [if prints_plain_error cmd
               then ''Error: HTTP '' @ show_nat code @ '': '' @ error_body
               else json_dumps_indent2 lib
                      (JObj [(''error'', JStr error_body), (''status'', JInt (int code))])],
            uncaught = None, requests = [req]\<rparr>"
proof -
  have a: "try_urlopen lib net req =
             Inr (JObj [(''error'', JStr error_body), (''status'', JInt (int code))])"
    using assms(2-4) by (simp add: try_urlopen_def)
  have b: "try_urlopen_plain lib net req =
             Inr (error_object (''HTTP '' @ show_nat code @ '': '' @ error_body))"
    using assms(2-4) by (simp add: try_urlopen_plain_def)
  show ?thesis
    using a b run_sent [OF assms(1)]
    by (simp add: report_json_def report_plain_error_object py_in_def exit_error_def)
qed

lemma http_error_other_json_crashes:
  assumes "requests (run lib env net cmd) = [req]"
    and "net req = HTTPError code raw"
    and "utf8_decode lib raw = Inr error_body"
    and "json_loads lib error_body = Inr v"
    and "\<forall>kvs. v \<noteq> JObj kvs"
  shows "run lib env net cmd =
           \<lparr>exit_code = 1, stdout = [], stderr = [], uncaught = Some AttributeError,
            requests = [req]\<rparr>"
proof -
  have a: "try_urlopen lib net req = Inl AttributeError"
    using assms(2-5) by (cases v) (simp_all add: try_urlopen_def)
  have b: "try_urlopen_plain lib net req = Inl AttributeError"
    using assms(2-5) by (cases v) (simp_all add: try_urlopen_plain_def)
  show ?thesis
    using a b run_sent [OF assms(1)]
    by (simp add: report_json_def report_plain_def crash_def)
qed

text \<open>
  Claim C6 at the input where the scripts miss it: the server answers
  \<^verbatim>\<open>list_agents.py\<close> with status 500 and the body \<^verbatim>\<open>[]\<close>, which is JSON but not an
  object. \<^verbatim>\<open>error_data.get\<close> raises \<^verbatim>\<open>AttributeError\<close> inside the \<^verbatim>\<open>HTTPError\<close> handler, no
  clause catches it, and the process ends with the traceback: neither the body nor the
  status code is printed.
\<close>

theorem http_error_array_body_crashes:
  "run sample_lib unset_env (answering (HTTPError 500 ''[]'')) ListAgents =
     \<lparr>exit_code = 1, stdout = [], stderr = [], uncaught = Some AttributeError,
      requests = [sample_request ''/agents'']\<rparr>"
proof -
  have l: "json_loads sample_lib ''[]'' = Inr (JArr [])"
    by (simp add: sample_lib_def sample_loads_def)
  have d: "utf8_decode sample_lib ''[]'' = Inr ''[]''"
    by (simp add: sample_lib_def)
  have t: "try_urlopen sample_lib (answering (HTTPError 500 ''[]'')) (sample_request ''/agents'')
             = Inl AttributeError"
    by (simp add: try_urlopen_def answering_def l d)
  show ?thesis
    using run_sent [OF list_agents_sample_requests [of "answering (HTTPError 500 ''[]'')"]]
    by (simp add: t prints_plain_error_def report_json_def crash_def)
qed

section \<open>The timeout of the read tools\<close>

text \<open>
  Claim C8 as stated does not hold for \<^verbatim>\<open>check_task_operator_lock.py\<close>: its GET request is
  opened without a timeout.
\<close>

theorem check_lock_timeout_counterexample:
  "requests (run sample_lib unset_env (answering (Success ''{}'')) CheckLock) = [lock_request]
   \<and> req_method lock_request = ''GET''
   \<and> req_timeout lock_request = None"
  by (simp add: check_lock_sample_requests lock_request_def)

text \<open>
  Claim C8, amended. Every GET request of a command other than the lock check (agent
  status, queue info, list agents, list queues) is opened with a timeout of 30 seconds;
  the GET request of the lock check is opened without a timeout.
\<close>

theorem read_tools_timeout:
  "\<forall>req \<in> set (requests (run lib env net cmd)).
     req_method req = ''GET'' \<longrightarrow>
       req_timeout req = (if cmd = CheckLock then None else Some 30)"
proof (intro ballI impI)
  fix req
  assume r: "req \<in> set (requests (run lib env net cmd))" and g: "req_method req = ''GET''"
  from r have m: "req_method req = command_method cmd"
    and t: "req_timeout req = (if prints_plain_error cmd then None else Some 30)"
    by (simp_all add: run_request_shape)
  from m g have "command_method cmd = ''GET''" by simp
  then have "prints_plain_error cmd \<longleftrightarrow> cmd = CheckLock"
    by (cases cmd) (simp_all add: command_method_def prints_plain_error_def)
  with t show "req_timeout req = (if cmd = CheckLock then None else Some 30)"
    by simp
qed

text \<open>The instance: the request of \<^verbatim>\<open>list_agents.py\<close>.\<close>

theorem read_tools_timeout_witness:
  "requests (run sample_lib unset_env (answering (Success ''{}'')) ListAgents)
     = [sample_request ''/agents'']
   \<and> req_method (sample_request ''/agents'') = ''GET''
   \<and> req_timeout (sample_request ''/agents'') = Some 30"
  using read_tools_timeout [of sample_lib unset_env "answering (Success ''{}'')" ListAgents]
  by (simp add: list_agents_sample_requests sample_request_def)

section \<open>Headers that are not an object\<close>

text \<open>
  Claim C4 as stated, for every invocation with such headers, does not hold: when
  \<^verbatim>\<open>--one-time\<close> and \<^verbatim>\<open>--schedule\<close> are both absent the schedule check comes first, and
  the message on standard error is the usage error about the schedule, not one about the
  JSON of the headers.
\<close>

theorem headers_array_without_schedule_counterexample:
  "json_loads sample_lib (headers array_headers_args) = Inr (JArr [JInt 1, JInt 2])
   \<and> create_agent_main sample_lib unset_env (answering (Success ''{}'')) array_headers_args =
        \<lparr>exit_code = 1, stdout = [],
         stderr = [''Error: Either --one-time must be true or --schedule must be provided''],
         uncaught = None, requests = []\<rparr>"
  by (simp add: create_agent_main_def validate_arguments_def truthy_def exit_error_def
      array_headers_args_def sample_args_def sample_lib_def sample_loads_def)

text \<open>
  Claim C4, amended. For every invocation of \<^verbatim>\<open>create_agent.py\<close> that has \<^verbatim>\<open>--one-time\<close> or
  a non-empty \<^verbatim>\<open>--schedule\<close>, and whose \<^verbatim>\<open>--headers\<close> value decodes to a JSON value that is
  not an object, the process ends with status 1 before any call of \<^verbatim>\<open>urlopen\<close>; the
  message \<^verbatim>\<open>Headers must be a JSON object\<close> reaches standard error as the text of the
  \<^verbatim>\<open>ValueError\<close> that ends the process.
\<close>

theorem headers_must_be_object:
  assumes "one_time args \<or> truthy (schedule args)"
    and "json_loads lib (headers args) = Inr v"
    and "\<forall>kvs. v \<noteq> JObj kvs"
  shows "create_agent_main lib env net args =
           \<lparr>exit_code = 1, stdout = [], stderr = [],
            uncaught = Some (ValueError ''Headers must be a JSON object''), requests = []\<rparr>"
proof -
  have "validate_arguments lib args =
          Some (crash (ValueError ''Headers must be a JSON object'') [])"
    using assms by (cases v) (auto simp: validate_arguments_def)
  then show ?thesis
    by (simp add: create_agent_main_def crash_def)
qed

text \<open>The instance: \<^verbatim>\<open>--one-time --headers '[1,2]'\<close>.\<close>

theorem headers_must_be_object_witness:
  "(one_time one_time_array_headers_args \<or> truthy (schedule one_time_array_headers_args))
   \<and> json_loads sample_lib (headers one_time_array_headers_args) = Inr (JArr [JInt 1, JInt 2])
   \<and> create_agent_main sample_lib unset_env (answering (Success ''{}''))
        one_time_array_headers_args =
        \<lparr>exit_code = 1, stdout = [], stderr = [],
         uncaught = Some (ValueError ''Headers must be a JSON object''), requests = []\<rparr>"
proof -
  have o: "one_time one_time_array_headers_args \<or> truthy (schedule one_time_array_headers_args)"
    by (simp add: one_time_array_headers_args_def)
  have l: "json_loads sample_lib (headers one_time_array_headers_args)
             = Inr (JArr [JInt 1, JInt 2])"
    by (simp add: one_time_array_headers_args_def sample_args_def sample_lib_def sample_loads_def)
  show ?thesis
    using headers_must_be_object [OF o l, of unset_env "answering (Success ''{}'')"] o l
    by simp
qed

section \<open>The payload of create\_agent\<close>

text \<open>
  Claim C5 as stated does not hold for a flag given with an empty value: with
  \<^verbatim>\<open>--one-time --body ''\<close> the arguments are valid and \<^verbatim>\<open>--body\<close> was provided, but the
  payload has no key \<^verbatim>\<open>body\<close>.
\<close>

theorem empty_body_counterexample:
  "validate_arguments sample_lib empty_body_args = None
   \<and> body empty_body_args = Some []
   \<and> build_agent_config sample_lib empty_body_args =
       Inr [(''name'', JStr ''test-agent''),
            (''targetUrl'', JStr ''http://cursor-runner:3001/health''),
            (''method'', JStr ''POST''),
            (''headers'', JObj []),
            (''oneTime'', JBool True),
            (''timeout'', JInt 30000)]"
  by (simp add: validate_arguments_def build_agent_config_def empty_body_args_def
      sample_args_def sample_lib_def sample_loads_def)

text \<open>
  Claim C5, amended. For every invocation of \<^verbatim>\<open>create_agent.py\<close> that passes
  \<^verbatim>\<open>validate_arguments\<close>, the payload is built, its keys are pairwise distinct, and they are
  exactly \<^verbatim>\<open>name\<close>, \<^verbatim>\<open>targetUrl\<close>, \<^verbatim>\<open>method\<close>, \<^verbatim>\<open>headers\<close>, \<^verbatim>\<open>oneTime\<close>, \<^verbatim>\<open>timeout\<close>, plus
  \<^verbatim>\<open>body\<close> iff \<^verbatim>\<open>--body\<close> was given a non-empty value, plus \<^verbatim>\<open>schedule\<close> iff \<^verbatim>\<open>--one-time\<close>
  is absent and \<^verbatim>\<open>--schedule\<close> was given a non-empty value, plus \<^verbatim>\<open>queue\<close> iff \<^verbatim>\<open>--queue\<close>
  was given a non-empty value; every request the script sends carries this payload.
\<close>

theorem payload_keys:
  assumes "validate_arguments lib args = None"
  shows "\<exists>config.
           build_agent_config lib args = Inr config
           \<and> distinct (map fst config)
           \<and> set (map fst config) =
               {''name'', ''targetUrl'', ''method'', ''headers'', ''oneTime'', ''timeout''}
               \<union> (if truthy (body args) then {''body''} else {})
               \<union> (if \<not> one_time args \<and> truthy (schedule args) then {''schedule''} else {})
               \<union> (if truthy (queue args) then {''queue''} else {})
           \<and> (\<forall>req \<in> set (requests (create_agent_main lib env net args)).
                 req_data req = Some (JObj config))"
proof -
  from build_agent_config_keys [OF assms]
  obtain config where c: "build_agent_config lib args = Inr config"
    and k: "map fst config =
               [''name'', ''targetUrl'', ''method'', ''headers'', ''oneTime'', ''timeout'']
               @ (if truthy (body args) then [''body''] else [])
               @ (if \<not> one_time args \<and> truthy (schedule args) then [''schedule''] else [])
               @ (if truthy (queue args) then [''queue''] else [])"
    by blast
  have d: "distinct (map fst config)"
    unfolding k by simp
  have s: "set (map fst config) =
               {''name'', ''targetUrl'', ''method'', ''headers'', ''oneTime'', ''timeout''}
               \<union> (if truthy (body args) then {''body''} else {})
               \<union> (if \<not> one_time args \<and> truthy (schedule args) then {''schedule''} else {})
               \<union> (if truthy (queue args) then {''queue''} else {})"
    unfolding k by simp
  have n: "config \<noteq> []"
    using k by auto
  have r: "\<forall>req \<in> set (requests (create_agent_main lib env net args)).
             req_data req = Some (JObj config)"
    using assms c n
    by (simp add: create_agent_main_def make_request_create_def Let_def split: option.splits)
  from c d s r show ?thesis by blast
qed

text \<open>
  The instance of the specification: with \<^verbatim>\<open>--one-time\<close>, a body and a schedule, the
  payload has the six fixed keys and \<^verbatim>\<open>body\<close>, and no \<^verbatim>\<open>schedule\<close>.
\<close>

theorem payload_keys_witness:
  "validate_arguments sample_lib one_time_schedule_args = None
   \<and> schedule one_time_schedule_args = Some ''0 0 * * *''
   \<and> build_agent_config sample_lib one_time_schedule_args =
       Inr [(''name'', JStr ''test-agent''),
            (''targetUrl'', JStr ''http://cursor-runner:3001/health''),
            (''method'', JStr ''POST''),
            (''headers'', JObj []),
            (''oneTime'', JBool True),
            (''timeout'', JInt 30000),
            (''body'', JObj [])]
   \<and> set (map fst [(''name'', JStr ''test-agent''),
            (''targetUrl'', JStr ''http://cursor-runner:3001/health''),
            (''method'', JStr ''POST''),
            (''headers'', JObj []),
            (''oneTime'', JBool True),
            (''timeout'', JInt 30000),
            (''body'', JObj [])]) =
       {''name'', ''targetUrl'', ''method'', ''headers'', ''oneTime'', ''timeout''} \<union> {''body''}"
proof -
  have v: "validate_arguments sample_lib one_time_schedule_args = None"
    by (simp add: validate_arguments_def one_time_schedule_args_def sample_args_def
        sample_lib_def sample_loads_def)
  have b: "build_agent_config sample_lib one_time_schedule_args =
       Inr [(''name'', JStr ''test-agent''),
            (''targetUrl'', JStr ''http://cursor-runner:3001/health''),
            (''method'', JStr ''POST''),
            (''headers'', JObj []),
            (''oneTime'', JBool True),
            (''timeout'', JInt 30000),
            (''body'', JObj [])]"
    by (simp add: build_agent_config_def one_time_schedule_args_def sample_args_def
        sample_lib_def sample_loads_def)
  have t: "truthy (body one_time_schedule_args)" "one_time one_time_schedule_args"
    "\<not> truthy (queue one_time_schedule_args)"
    "schedule one_time_schedule_args = Some ''0 0 * * *''"
    by (simp_all add: truthy_def one_time_schedule_args_def sample_args_def)
  from payload_keys [OF v, of unset_env "answering (Success ''{}'')"]
  obtain config where c: "build_agent_config sample_lib one_time_schedule_args = Inr config"
    and s: "set (map fst config) =
               {''name'', ''targetUrl'', ''method'', ''headers'', ''oneTime'', ''timeout''}
               \<union> (if truthy (body one_time_schedule_args) then {''body''} else {})
               \<union> (if \<not> one_time one_time_schedule_args
                     \<and> truthy (schedule one_time_schedule_args) then {''schedule''} else {})
               \<union> (if truthy (queue one_time_schedule_args) then {''queue''} else {})"
    by blast
  from c b have e: "config = [(''name'', JStr ''test-agent''),
            (''targetUrl'', JStr ''http://cursor-runner:3001/health''),
            (''method'', JStr ''POST''),
            (''headers'', JObj []),
            (''oneTime'', JBool True),
            (''timeout'', JInt 30000),
            (''body'', JObj [])]" by simp
  from s t have "set (map fst config) =
       {''name'', ''targetUrl'', ''method'', ''headers'', ''oneTime'', ''timeout''} \<union> {''body''}"
    by simp
  with e v b t(4) show ?thesis by simp
qed

section \<open>One request per invocation\<close>




end
